theory Spec2Isabelle
  imports Complex_Main "HOL-Library.Multiset" "HOL-Library.Char_ord" "HOL-Library.List_Lexorder"
begin

section \<open>JSON values, Python strings and exceptions\<close>

text \<open>
  Candidates, schemas and examples are the values \<^verbatim>\<open>json.load\<close> produces: nested
  dictionaries, lists and scalars. A dictionary is an association list (Python keeps the
  insertion order of the keys); a lookup takes the first binding of a key. Numbers are
  Python integers; a float is left out: it is truthy, not iterable and hashable as an
  integer is, and would differ only by the digits that \<^verbatim>\<open>repr\<close> and \<^verbatim>\<open>json.dumps\<close>
  print. A character is a byte: an ASCII character, or above \<open>0x7F\<close> the Latin-1
  character of that code.
\<close>

datatype json =
    JNull
  | JBool bool
  | JInt int
  | JStr string
  | JArr "json list"
  | JObj "(string \<times> json) list"

type_synonym pydict = "(string \<times> json) list"

text \<open>
  What the code reads of a \<^verbatim>\<open>jsonschema.ValidationError\<close>: its \<^verbatim>\<open>path\<close> (property
  names and array indices), its \<^verbatim>\<open>message\<close> and its \<^verbatim>\<open>context\<close> (the sub-errors).
\<close>

datatype path_elem = Key string | Idx nat

datatype validation_error =
  ValidationErr (e_path: "path_elem list") (e_message: string)
    (e_context: "validation_error list")

text \<open>
  The exceptions the two modules raise or catch. All of them are subclasses of
  \<^verbatim>\<open>Exception\<close>; \<open>Exception\<close> stands for any other subclass, with its \<^verbatim>\<open>str\<close>.
\<close>

datatype exn =
    ValueError string
  | TypeError string
  | IndexError string
  | ValidationError validation_error
  | SchemaError string
  | Exception string

definition digit_char :: "nat \<Rightarrow> char" where
  "digit_char d = ''0123456789'' ! d"

fun str_nat :: "nat \<Rightarrow> string" where
  "str_nat n = (if n < 10 then [digit_char n] else str_nat (n div 10) @ [digit_char (n mod 10)])"

declare str_nat.simps [simp del]

definition str_int :: "int \<Rightarrow> string" where
  "str_int i = (if i < 0 then CHR ''-'' # str_nat (nat (- i)) else str_nat (nat i))"

text \<open>\<^verbatim>\<open>sep.join(parts)\<close>.\<close>

fun join :: "string \<Rightarrow> string list \<Rightarrow> string" where
  "join sep [] = []"
| "join sep [x] = x"
| "join sep (x # y # ys) = x @ sep @ join sep (y # ys)"

text \<open>\<^verbatim>\<open>str(p)\<close> for an element of an error path.\<close>

fun str_path_elem :: "path_elem \<Rightarrow> string" where
  "str_path_elem (Key s) = s"
| "str_path_elem (Idx n) = str_nat n"

text \<open>
  \<^verbatim>\<open>repr\<close> of a string: single quotes, unless the string holds a single quote and no
  double quote; the quote and the backslash are escaped, and the characters that are not
  printable (the control characters, \<open>0x7F\<close> to \<open>0xA0\<close> and the soft hyphen \<open>0xAD\<close>) are
  written \<^verbatim>\<open>\t\<close>, \<^verbatim>\<open>\n\<close>, \<^verbatim>\<open>\r\<close> or \<^verbatim>\<open>\xhh\<close>.
\<close>

definition hex_char :: "nat \<Rightarrow> char" where
  "hex_char d = ''0123456789abcdef'' ! d"

definition repr_char :: "char \<Rightarrow> char \<Rightarrow> string" where
  "repr_char q c =
     (if c = q \<or> c = CHR 0x5C then [CHR 0x5C, c]
      else if c = CHR 0x09 then [CHR 0x5C, CHR ''t'']
      else if c = CHR 0x0A then [CHR 0x5C, CHR ''n'']
      else if c = CHR 0x0D then [CHR 0x5C, CHR ''r'']
      else if (of_char c :: nat) < 32 \<or> (127 \<le> (of_char c :: nat) \<and> (of_char c :: nat) \<le> 160)
              \<or> (of_char c :: nat) = 173
        then [CHR 0x5C, CHR ''x'', hex_char (of_char c div 16), hex_char (of_char c mod 16)]
      else [c])"

definition repr_str :: "string \<Rightarrow> string" where
  "repr_str s =
     (let q = (if CHR 0x27 \<in> set s \<and> CHR 0x22 \<notin> set s then CHR 0x22 else CHR 0x27)
      in [q] @ concat (map (repr_char q) s) @ [q])"

text \<open>\<^verbatim>\<open>repr\<close> of a JSON value, as it appears in the messages of \<^verbatim>\<open>jsonschema\<close>.\<close>

primrec py_repr :: "json \<Rightarrow> string" where
  "py_repr JNull = ''None''"
| "py_repr (JBool b) = (if b then ''True'' else ''False'')"
| "py_repr (JInt i) = str_int i"
| "py_repr (JStr s) = repr_str s"
| "py_repr (JArr xs) = ''['' @ join '', '' (map py_repr xs) @ '']''"
| "py_repr (JObj kvs) =
     ''{'' @ join '', '' (map (\<lambda>kv. repr_str (fst kv) @ '': '' @ snd kv)
                           (map (map_prod id py_repr) kvs)) @ ''}''"

text \<open>\<^verbatim>\<open>str(e)\<close> of an exception caught by \<^verbatim>\<open>except Exception as e\<close>.\<close>

fun str_exn :: "exn \<Rightarrow> string" where
  "str_exn (ValueError m) = m"
| "str_exn (TypeError m) = m"
| "str_exn (IndexError m) = m"
| "str_exn (ValidationError e) = e_message e"
| "str_exn (SchemaError m) = m"
| "str_exn (Exception m) = m"

section \<open>validate.py\<close>

subsection \<open>\<^verbatim>\<open>validate_output\<close>\<close>

text \<open>
  \<^verbatim>\<open>jsonschema.validate\<close> is a third-party call: it is a parameter of the model, a
  function that returns normally (\<open>Inr ()\<close>) or raises (\<open>Inl e\<close>). The three handlers are
  tried in the order of the source.
\<close>

definition validation_error_msg :: "validation_error \<Rightarrow> string" where
  "validation_error_msg e =
     ''Validation error at path '' @ [CHR 0x27] @ join ''.'' (map str_path_elem (e_path e))
       @ [CHR 0x27] @ '': '' @ e_message e"

definition sub_error_msg :: "validation_error \<Rightarrow> string" where
  "sub_error_msg suberror = ''  - Sub-error: '' @ e_message suberror"

definition validate_output ::
  "(pydict \<Rightarrow> pydict \<Rightarrow> exn + unit) \<Rightarrow> pydict \<Rightarrow> pydict \<Rightarrow> exn + bool \<times> string list" where
  "validate_output validate candidate schema =
     (case validate candidate schema of
        Inr _ \<Rightarrow> Inr (True, [])
      | Inl (ValidationError e) \<Rightarrow>
          Inr (False, [validation_error_msg e] @ map sub_error_msg (e_context e))
      | Inl (SchemaError m) \<Rightarrow> Inr (False, [''Schema error: '' @ m])
      | Inl e \<Rightarrow> Inr (False, [''Unexpected validation error: '' @ str_exn e]))"

subsection \<open>\<^verbatim>\<open>coverage_metric\<close>\<close>

text \<open>\<^verbatim>\<open>bool(v)\<close>, as \<^verbatim>\<open>not required_fields\<close> tests it.\<close>

fun py_truthy :: "json \<Rightarrow> bool" where
  "py_truthy JNull = False"
| "py_truthy (JBool b) = b"
| "py_truthy (JInt i) = (i \<noteq> 0)"
| "py_truthy (JStr s) = (s \<noteq> [])"
| "py_truthy (JArr xs) = (xs \<noteq> [])"
| "py_truthy (JObj kvs) = (kvs \<noteq> [])"

text \<open>The elements \<^verbatim>\<open>for field in v\<close> runs over; a scalar is not iterable.\<close>

fun py_iter :: "json \<Rightarrow> exn + json list" where
  "py_iter (JArr xs) = Inr xs"
| "py_iter (JStr s) = Inr (map (\<lambda>c. JStr [c]) s)"
| "py_iter (JObj kvs) = Inr (map (\<lambda>kv. JStr (fst kv)) kvs)"
| "py_iter JNull = Inl (TypeError (repr_str ''NoneType'' @ '' object is not iterable''))"
| "py_iter (JBool b) = Inl (TypeError (repr_str ''bool'' @ '' object is not iterable''))"
| "py_iter (JInt i) = Inl (TypeError (repr_str ''int'' @ '' object is not iterable''))"

text \<open>\<^verbatim>\<open>len(v)\<close>.\<close>

fun py_len :: "json \<Rightarrow> exn + nat" where
  "py_len (JArr xs) = Inr (length xs)"
| "py_len (JStr s) = Inr (length s)"
| "py_len (JObj kvs) = Inr (length kvs)"
| "py_len JNull = Inl (TypeError (''object of type '' @ repr_str ''NoneType'' @ '' has no len()''))"
| "py_len (JBool b) = Inl (TypeError (''object of type '' @ repr_str ''bool'' @ '' has no len()''))"
| "py_len (JInt i) = Inl (TypeError (''object of type '' @ repr_str ''int'' @ '' has no len()''))"

text \<open>
  \<^verbatim>\<open>field in candidate\<close> for a dictionary with string keys: the key is hashed first, and
  a list or a dictionary is not hashable.
\<close>

fun py_in_dict :: "json \<Rightarrow> pydict \<Rightarrow> exn + bool" where
  "py_in_dict (JStr s) d = Inr (s \<in> set (map fst d))"
| "py_in_dict (JArr xs) d = Inl (TypeError (''unhashable type: '' @ repr_str ''list''))"
| "py_in_dict (JObj kvs) d = Inl (TypeError (''unhashable type: '' @ repr_str ''dict''))"
| "py_in_dict v d = Inr False"

text \<open>\<^verbatim>\<open>sum(1 for field in required_fields if field in candidate)\<close>.\<close>

fun present_count :: "json list \<Rightarrow> pydict \<Rightarrow> exn + nat" where
  "present_count [] candidate = Inr 0"
| "present_count (field # fields) candidate =
     (case py_in_dict field candidate of
        Inl e \<Rightarrow> Inl e
      | Inr b \<Rightarrow>
          (case present_count fields candidate of
             Inl e \<Rightarrow> Inl e
           | Inr n \<Rightarrow> Inr ((if b then 1 else 0) + n)))"

text \<open>\<^verbatim>\<open>schema.get('required', [])\<close>.\<close>

definition required_fields :: "pydict \<Rightarrow> json" where
  "required_fields schema = (case map_of schema ''required'' of None \<Rightarrow> JArr [] | Some v \<Rightarrow> v)"

text \<open>The quotient is Python's true division; the float is read as the real it rounds.\<close>

definition coverage_metric :: "pydict \<Rightarrow> pydict \<Rightarrow> exn + real" where
  "coverage_metric candidate schema =
     (if \<not> py_truthy (required_fields schema) then Inr 1
      else
        case py_iter (required_fields schema) of
          Inl e \<Rightarrow> Inl e
        | Inr fields \<Rightarrow>
            (case present_count fields candidate of
               Inl e \<Rightarrow> Inl e
             | Inr n \<Rightarrow>
                 (case py_len (required_fields schema) of
                    Inl e \<Rightarrow> Inl e
                  | Inr l \<Rightarrow> Inr (real n / real l))))"

subsection \<open>The library call at schemas with \<^verbatim>\<open>required\<close>\<close>

text \<open>
  \<^verbatim>\<open>jsonschema\<close> is not part of the repository, and the properties of \<open>validate_output\<close>
  are proved for every library call. \<open>jsonschema_validate\<close> gives a concrete call for the
  explicit inputs of the examples, all of them schemas whose only key is \<^verbatim>\<open>required\<close>
  (so validated under the default draft): there the schema is checked first, and a
  \<^verbatim>\<open>required\<close> that is not a list of distinct strings raises \<^verbatim>\<open>SchemaError\<close>; then the
  keyword yields one error per missing property, in the order of the list, with an empty
  path and an empty context, and \<^verbatim>\<open>best_match\<close> keeps the first of these equally
  relevant errors, which is raised. It says nothing of a schema with any other key
  (\<^verbatim>\<open>$schema\<close>, \<^verbatim>\<open>type\<close>, \<^verbatim>\<open>properties\<close>, ...), and no property below is stated of it for
  all schemas.
\<close>

fun is_str :: "json \<Rightarrow> bool" where
  "is_str (JStr s) = True"
| "is_str v = False"

definition required_errors :: "pydict \<Rightarrow> json list \<Rightarrow> validation_error list" where
  "required_errors instance required =
     map (\<lambda>p. ValidationErr [] (py_repr p @ '' is a required property'') [])
       (filter (\<lambda>p. p \<notin> set (map (\<lambda>kv. JStr (fst kv)) instance)) required)"

definition jsonschema_validate :: "pydict \<Rightarrow> pydict \<Rightarrow> exn + unit" where
  "jsonschema_validate instance schema =
     (case map_of schema ''required'' of
        None \<Rightarrow> Inr ()
      | Some (JArr ps) \<Rightarrow>
          (case filter (\<lambda>p. \<not> is_str p) ps of
             p # _ \<Rightarrow> Inl (SchemaError (py_repr p @ '' is not of type '' @ repr_str ''string''))
           | [] \<Rightarrow>
               if \<not> distinct ps
               then Inl (SchemaError (py_repr (JArr ps) @ '' has non-unique elements''))
               else (case required_errors instance ps of
                       [] \<Rightarrow> Inr ()
                     | e # _ \<Rightarrow> Inl (ValidationError e)))
      | Some v \<Rightarrow> Inl (SchemaError (py_repr v @ '' is not of type '' @ repr_str ''array'')))"

section \<open>retriever.py\<close>

subsection \<open>\<^verbatim>\<open>to_text\<close>\<close>

text \<open>\<^verbatim>\<open>str(v)\<close>, as the f-string formats a value: a string as it is, anything else by its \<^verbatim>\<open>repr\<close>.\<close>

definition py_str :: "json \<Rightarrow> string" where
  "py_str v = (case v of JStr s \<Rightarrow> s | _ \<Rightarrow> py_repr v)"

text \<open>
  \<^verbatim>\<open>json.dumps(v, separators=(',', ':'))\<close>: no white space; in a string the quote, the
  backslash and the control characters are escaped, and every character outside the
  printable ASCII range is written \<^verbatim>\<open>\u00hh\<close>.
\<close>

definition dumps_char :: "char \<Rightarrow> string" where
  "dumps_char c =
     (if c = CHR 0x22 then [CHR 0x5C, CHR 0x22]
      else if c = CHR 0x5C then [CHR 0x5C, CHR 0x5C]
      else if c = CHR 0x0A then [CHR 0x5C, CHR ''n'']
      else if c = CHR 0x0D then [CHR 0x5C, CHR ''r'']
      else if c = CHR 0x09 then [CHR 0x5C, CHR ''t'']
      else if c = CHR 0x08 then [CHR 0x5C, CHR ''b'']
      else if c = CHR 0x0C then [CHR 0x5C, CHR ''f'']
      else if (of_char c :: nat) < 32 \<or> 126 < (of_char c :: nat)
        then [CHR 0x5C, CHR ''u'', CHR ''0'', CHR ''0'',
              hex_char (of_char c div 16), hex_char (of_char c mod 16)]
      else [c])"

definition dumps_str :: "string \<Rightarrow> string" where
  "dumps_str s = [CHR 0x22] @ concat (map dumps_char s) @ [CHR 0x22]"

primrec json_dumps :: "json \<Rightarrow> string" where
  "json_dumps JNull = ''null''"
| "json_dumps (JBool b) = (if b then ''true'' else ''false'')"
| "json_dumps (JInt i) = str_int i"
| "json_dumps (JStr s) = dumps_str s"
| "json_dumps (JArr xs) = ''['' @ join '','' (map json_dumps xs) @ '']''"
| "json_dumps (JObj kvs) =
     ''{'' @ join '','' (map (\<lambda>kv. dumps_str (fst kv) @ '':'' @ snd kv)
                          (map (map_prod id json_dumps) kvs)) @ ''}''"

text \<open>\<^verbatim>\<open>example.get(key, default)\<close>.\<close>

definition dict_get :: "pydict \<Rightarrow> string \<Rightarrow> json \<Rightarrow> json" where
  "dict_get d key dflt = (case map_of d key of None \<Rightarrow> dflt | Some v \<Rightarrow> v)"

definition to_text :: "pydict \<Rightarrow> string" where
  "to_text example =
     (let title = dict_get example ''title'' (JStr []);
          description = dict_get example ''description'' (JStr []);
          config = dict_get example ''config'' (JObj []);
          config_str = json_dumps config
      in py_str title @ '' '' @ py_str description @ '' '' @ config_str)"

subsection \<open>\<^verbatim>\<open>build_index\<close>\<close>

text \<open>
  The index is a fitted \<^verbatim>\<open>TfidfVectorizer\<close>, which the code uses through
  \<^verbatim>\<open>transform\<close> only (a text to its row of weights), and the matrix of the rows of the
  corpus. The floats of the weights and scores are read as reals. \<^verbatim>\<open>fit_transform\<close> is
  a third-party call and a parameter of the model.
\<close>

type_synonym vectorizer = "string \<Rightarrow> real list"

type_synonym matrix = "real list list"

definition build_index ::
  "(string list \<Rightarrow> exn + vectorizer \<times> matrix) \<Rightarrow> pydict list
     \<Rightarrow> exn + vectorizer \<times> matrix \<times> string list" where
  "build_index fit_transform examples =
     (if examples = [] then Inl (ValueError ''Examples list cannot be empty'')
      else
        let texts = map to_text examples
        in case fit_transform texts of
             Inl e \<Rightarrow> Inl e
           | Inr (vectorizer, tfidf_matrix) \<Rightarrow> Inr (vectorizer, tfidf_matrix, texts))"

subsection \<open>\<^verbatim>\<open>get_top_k\<close>\<close>

definition dot :: "real list \<Rightarrow> real list \<Rightarrow> real" where
  "dot u v = sum_list (map2 (*) u v)"

text \<open>
  \<^verbatim>\<open>matrix.dot(query_vec.T).toarray().flatten()\<close>: one score per row; the product is
  refused with a \<^verbatim>\<open>ValueError\<close> when the number of columns is not the length of the query
  vector (the text of its message depends on the version of \<^verbatim>\<open>scipy\<close>).
\<close>

definition similarity_scores :: "matrix \<Rightarrow> real list \<Rightarrow> exn + real list" where
  "similarity_scores m query_vec =
     (if list_all (\<lambda>row. length row = length query_vec) m
      then Inr (map (\<lambda>row. dot row query_vec) m)
      else Inl (ValueError ''dimension mismatch''))"

text \<open>\<^verbatim>\<open>np.argsort(similarity_scores)[::-1][:k]\<close>; \<^verbatim>\<open>np.argsort\<close> is a parameter.\<close>

definition top_indices :: "(real list \<Rightarrow> nat list) \<Rightarrow> real list \<Rightarrow> nat \<Rightarrow> nat list" where
  "top_indices argsort scores k = take k (rev (argsort scores))"

text \<open>\<^verbatim>\<open>round(x, 4)\<close> on the real \<open>x\<close>: to the nearest multiple of \<open>1/10000\<close>, a tie to the even one.\<close>

definition round_half_even :: "real \<Rightarrow> int" where
  "round_half_even x =
     (let f = \<lfloor>x\<rfloor>
      in if x - of_int f < 1 / 2 then f
         else if 1 / 2 < x - of_int f then f + 1
         else if even f then f else f + 1)"

definition round4 :: "real \<Rightarrow> real" where
  "round4 x = of_int (round_half_even (x * 10000)) / 10000"

text \<open>
  The steps follow the source: the test of \<open>k\<close>, the clamp of \<open>k\<close> to the number of
  examples, the encoding of the query, the scores, the indices of the \<open>k\<close> best, the
  list of results. Reading \<^verbatim>\<open>examples[idx]\<close> or a score past the end raises
  \<^verbatim>\<open>IndexError\<close>.
\<close>

definition get_top_k ::
  "(real list \<Rightarrow> nat list) \<Rightarrow> string \<Rightarrow> vectorizer \<Rightarrow> matrix \<Rightarrow> pydict list \<Rightarrow> int
     \<Rightarrow> exn + (pydict \<times> real) list" where
  "get_top_k argsort query vectorizer m examples k =
     (if k < 1 then Inl (ValueError ''k must be at least 1'')
      else
        let k' = (if k > int (length examples) then int (length examples) else k)
        in case similarity_scores m (vectorizer query) of
             Inl e \<Rightarrow> Inl e
           | Inr scores \<Rightarrow>
               let top = top_indices argsort scores (nat k')
               in if list_all (\<lambda>idx. idx < length examples \<and> idx < length scores) top
                  then Inr (map (\<lambda>idx. (examples ! idx, round4 (scores ! idx))) top)
                  else Inl (IndexError ''list index out of range''))"

subsection \<open>The library calls of the retriever\<close>

text \<open>
  \<^verbatim>\<open>np.argsort\<close> returns the indices of the scores in ascending order of score. This is
  all the code may rely on: the default sort of \<^verbatim>\<open>numpy\<close> is not stable, and the order in
  which it returns the indices of equal scores depends on the sort that the build of the
  library runs. The properties of \<open>get_top_k\<close> are proved for every sort of this kind.
\<close>

definition argsort_ok :: "(real list \<Rightarrow> nat list) \<Rightarrow> bool" where
  "argsort_ok argsort \<longleftrightarrow>
     (\<forall>xs. mset (argsort xs) = mset [0..<length xs] \<and> sorted (map (\<lambda>i. xs ! i) (argsort xs)))"

text \<open>
  \<open>stable_argsort\<close> is one such sort, the insertion sort, which leaves equal scores in the
  order of their indices. It is not \<^verbatim>\<open>np.argsort\<close>, which may order equal scores
  differently: it gives a concrete sort for the explicit inputs of the examples, and shows
  which orders of equal scores the code admits.
\<close>

definition stable_argsort :: "real list \<Rightarrow> nat list" where
  "stable_argsort xs = sort_key (\<lambda>i. xs ! i) [0..<length xs]"


definition lower_char :: "char \<Rightarrow> char" where
  "lower_char c =
     (case map_of (zip ''ABCDEFGHIJKLMNOPQRSTUVWXYZ'' ''abcdefghijklmnopqrstuvwxyz'') c of
        Some l \<Rightarrow> l
      | None \<Rightarrow> c)"

definition is_word_char :: "char \<Rightarrow> bool" where
  "is_word_char c =
     (let n = (of_char c :: nat)
      in (48 \<le> n \<and> n \<le> 57) \<or> (65 \<le> n \<and> n \<le> 90) \<or> n = 95 \<or> (97 \<le> n \<and> n \<le> 122))"

fun word_runs :: "string \<Rightarrow> string \<Rightarrow> string list" where
  "word_runs cur [] = [cur]"
| "word_runs cur (c # cs) =
     (if is_word_char c then word_runs (cur @ [c]) cs else cur # word_runs [] cs)"

definition tokenize :: "string \<Rightarrow> string list" where
  "tokenize text = filter (\<lambda>w. 2 \<le> length w) (word_runs [] (map lower_char text))"

definition fit_vocabulary :: "string list \<Rightarrow> string list" where
  "fit_vocabulary texts = sort (remdups (concat (map tokenize texts)))"

definition idf :: "string list \<Rightarrow> string \<Rightarrow> real" where
  "idf texts t =
     ln ((1 + real (length texts))
           / (1 + real (length (filter (\<lambda>d. t \<in> set (tokenize d)) texts)))) + 1"

definition l2_normalize :: "real list \<Rightarrow> real list" where
  "l2_normalize v =
     (let nrm = sqrt (dot v v) in if nrm = 0 then v else map (\<lambda>x. x / nrm) v)"

definition tfidf_transform :: "string list \<Rightarrow> string \<Rightarrow> real list" where
  "tfidf_transform texts query =
     l2_normalize
       (map (\<lambda>t. real (count_list (tokenize query) t) * idf texts t) (fit_vocabulary texts))"

definition tfidf_fit_transform :: "string list \<Rightarrow> exn + vectorizer \<times> matrix" where
  "tfidf_fit_transform texts =
     (if fit_vocabulary texts = []
      then Inl (ValueError ''empty vocabulary; perhaps the documents only contain stop words'')
      else Inr (tfidf_transform texts, map (tfidf_transform texts) texts))"

text \<open>
  The index belongs to the corpus and the query: one row per example, and as many columns
  as the vector of the query has entries.
\<close>

definition index_ok :: "string \<Rightarrow> vectorizer \<Rightarrow> matrix \<Rightarrow> pydict list \<Rightarrow> bool" where
  "index_ok query vectorizer m examples \<longleftrightarrow>
     length m = length examples \<and> list_all (\<lambda>row. length row = length (vectorizer query)) m"

section \<open>Properties of validate.py\<close>

lemma validate_output_cases:
  "validate_output validate candidate schema =
     (case validate candidate schema of
        Inr _ \<Rightarrow> Inr (True, [])
      | Inl e \<Rightarrow>
          Inr (False,
            (case e of
               ValidationError ve \<Rightarrow> validation_error_msg ve # map sub_error_msg (e_context ve)
             | SchemaError m \<Rightarrow> [''Schema error: '' @ m]
             | _ \<Rightarrow> [''Unexpected validation error: '' @ str_exn e])))"
  by (simp add: validate_output_def split: sum.splits exn.splits)

text \<open>
  C10. Whatever the library call does, \<open>validate_output\<close> returns a verdict whose flag is
  true exactly when its error list is empty, and exactly when \<^verbatim>\<open>validate\<close> returned
  without raising: the success result is \<open>(True, [])\<close>, and every failure path returns
  \<open>False\<close> with at least one entry.
\<close>

theorem validate_output_valid_iff_no_errors:
  "\<exists>b errs. validate_output validate candidate schema = Inr (b, errs)
     \<and> (b \<longleftrightarrow> errs = [])
     \<and> (b \<longleftrightarrow> validate candidate schema = Inr ())"
proof (cases "validate candidate schema")
  case (Inl e)
  then have "validate_output validate candidate schema
      = Inr (False,
          (case e of
             ValidationError ve \<Rightarrow> validation_error_msg ve # map sub_error_msg (e_context ve)
           | SchemaError m \<Rightarrow> [''Schema error: '' @ m]
           | _ \<Rightarrow> [''Unexpected validation error: '' @ str_exn e]))"
    by (simp add: validate_output_cases)
  moreover have "(case e of
             ValidationError ve \<Rightarrow> validation_error_msg ve # map sub_error_msg (e_context ve)
           | SchemaError m \<Rightarrow> [''Schema error: '' @ m]
           | _ \<Rightarrow> [''Unexpected validation error: '' @ str_exn e]) \<noteq> []"
    by (cases e) simp_all
  ultimately show ?thesis using Inl by auto
next
  case (Inr u)
  then show ?thesis by (auto simp: validate_output_cases)
qed

text \<open>
  C9. \<open>validate_output\<close> never raises: it always returns a verdict \<open>(isValid, errors)\<close>.
  An exception of the library call that is neither a \<^verbatim>\<open>ValidationError\<close> nor a
  \<^verbatim>\<open>SchemaError\<close> is caught by the last handler and becomes the single generic entry
  \<^verbatim>\<open>Unexpected validation error: ...\<close> of a failing verdict.
\<close>

theorem validate_output_never_raises:
  "(\<exists>b errs. validate_output validate candidate schema = Inr (b, errs))
   \<and> (\<forall>e. validate candidate schema = Inl e
          \<longrightarrow> (\<forall>ve. e \<noteq> ValidationError ve) \<longrightarrow> (\<forall>m. e \<noteq> SchemaError m)
          \<longrightarrow> validate_output validate candidate schema
                = Inr (False, [''Unexpected validation error: '' @ str_exn e]))"
proof
  show "\<exists>b errs. validate_output validate candidate schema = Inr (b, errs)"
    by (cases "validate candidate schema") (auto simp: validate_output_cases)
next
  show "\<forall>e. validate candidate schema = Inl e
          \<longrightarrow> (\<forall>ve. e \<noteq> ValidationError ve) \<longrightarrow> (\<forall>m. e \<noteq> SchemaError m)
          \<longrightarrow> validate_output validate candidate schema
                = Inr (False, [''Unexpected validation error: '' @ str_exn e])"
  proof (intro allI impI)
    fix e
    assume r: "validate candidate schema = Inl e"
      and nv: "\<forall>ve. e \<noteq> ValidationError ve" and ns: "\<forall>m. e \<noteq> SchemaError m"
    from nv ns show "validate_output validate candidate schema
        = Inr (False, [''Unexpected validation error: '' @ str_exn e])"
      by (cases e) (simp_all add: validate_output_cases r)
  qed
qed

text \<open>
  C9 when the library call raises a \<^verbatim>\<open>TypeError\<close>.
\<close>

theorem validate_output_never_raises_witness:
  "(\<exists>b errs. validate_output (\<lambda>c s. Inl (TypeError ''unhashable type'')) [] [] = Inr (b, errs))
   \<and> validate_output (\<lambda>c s. Inl (TypeError ''unhashable type'')) [] []
       = Inr (False, [''Unexpected validation error: unhashable type''])"
proof -
  let ?v = "\<lambda>(c::pydict) (s::pydict). (Inl (TypeError ''unhashable type'') :: exn + unit)"
  have r: "?v [] [] = Inl (TypeError ''unhashable type'')" by simp
  from validate_output_never_raises [of ?v "[]" "[]"]
  have ex: "\<exists>b errs. validate_output ?v [] [] = Inr (b, errs)"
    and un: "\<forall>e. ?v [] [] = Inl e
          \<longrightarrow> (\<forall>ve. e \<noteq> ValidationError ve) \<longrightarrow> (\<forall>m. e \<noteq> SchemaError m)
          \<longrightarrow> validate_output ?v [] []
                = Inr (False, [''Unexpected validation error: '' @ str_exn e])"
    by blast+
  from un r have "validate_output ?v [] []
      = Inr (False, [''Unexpected validation error: '' @ str_exn (TypeError ''unhashable type'')])"
    by blast
  with ex show ?thesis by simp
qed

lemma present_count_strings:
  "present_count (map JStr names) candidate
     = Inr (length (filter (\<lambda>n. n \<in> set (map fst candidate)) names))"
  by (induction names) simp_all

text \<open>
  C5. For a schema whose \<^verbatim>\<open>required\<close> entry is absent or a list of property names,
  \<open>coverage_metric\<close> returns 1 when the list is empty (or absent), whatever the candidate
  holds, and otherwise the number of required names that are keys of the candidate divided
  by the number of required names; the ratio lies between 0 and 1. Only the keys of the
  candidate are read, never the values, and no validation verdict is involved.
\<close>

theorem coverage_metric_ratio:
  assumes "required_fields schema = JArr (map JStr names)"
  shows "\<exists>r. coverage_metric candidate schema = Inr r \<and> 0 \<le> r \<and> r \<le> 1
           \<and> r = (if names = [] then 1
                  else real (length (filter (\<lambda>n. n \<in> set (map fst candidate)) names))
                         / real (length names))"
proof (cases "names = []")
  case True
  with assms show ?thesis by (simp add: coverage_metric_def)
next
  case False
  let ?n = "length (filter (\<lambda>n. n \<in> set (map fst candidate)) names)"
  have le: "?n \<le> length names" by (rule length_filter_le)
  have pos: "0 < length names" using False by simp
  have cov: "coverage_metric candidate schema = Inr (real ?n / real (length names))"
    using assms False by (simp add: coverage_metric_def present_count_strings)
  have "real ?n / real (length names) \<le> 1"
    using le pos by (simp add: divide_le_eq_1)
  with cov False show ?thesis by simp
qed

text \<open>
  C5 at a candidate with two of three required fields (one of them with a value of the
  wrong kind), and at the empty candidate with the empty schema.
\<close>

theorem coverage_metric_ratio_witness:
  "required_fields [(''required'', JArr [JStr ''id'', JStr ''type'', JStr ''action''])]
     = JArr (map JStr [''id'', ''type'', ''action''])
   \<and> coverage_metric [(''id'', JStr ''wf-4''), (''type'', JInt 7)]
        [(''required'', JArr [JStr ''id'', JStr ''type'', JStr ''action''])] = Inr (2 / 3)
   \<and> coverage_metric [] [] = Inr 1"
proof -
  have h: "required_fields [(''required'', JArr [JStr ''id'', JStr ''type'', JStr ''action''])]
     = JArr (map JStr [''id'', ''type'', ''action''])"
    by (simp add: required_fields_def)
  have e: "required_fields [] = JArr (map JStr [])"
    by (simp add: required_fields_def)
  from coverage_metric_ratio [OF h, of "[(''id'', JStr ''wf-4''), (''type'', JInt 7)]"]
  have a: "coverage_metric [(''id'', JStr ''wf-4''), (''type'', JInt 7)]
        [(''required'', JArr [JStr ''id'', JStr ''type'', JStr ''action''])] = Inr (2 / 3)"
    by auto
  from coverage_metric_ratio [OF e, of "[]"]
  have b: "coverage_metric [] [] = Inr 1" by auto
  from h a b show ?thesis by blast
qed


text \<open>
  C10 at the valid candidate of the specification's example: the result is \<open>(True, [])\<close>.
\<close>

theorem validate_output_valid_iff_no_errors_witness:
  "validate_output jsonschema_validate
     [(''id'', JStr ''wf-1''), (''type'', JStr ''x''), (''action'', JObj [])]
     [(''required'', JArr [JStr ''id'', JStr ''type'', JStr ''action''])] = Inr (True, [])"
proof -
  let ?c = "[(''id'', JStr ''wf-1''), (''type'', JStr ''x''), (''action'', JObj [])]"
  let ?s = "[(''required'', JArr [JStr ''id'', JStr ''type'', JStr ''action''])]"
  have ok: "jsonschema_validate ?c ?s = Inr ()"
    by (simp add: jsonschema_validate_def required_errors_def)
  from validate_output_valid_iff_no_errors [of jsonschema_validate ?c ?s] ok
  show ?thesis by auto
qed

text \<open>
  C3 as stated fails: for the schema \<^verbatim>\<open>{"required": "id"}\<close>, which is malformed, the
  library call raises \<^verbatim>\<open>SchemaError\<close>, and \<open>validate_output\<close> does not signal it: it
  returns the failing verdict \<open>(False, [...])\<close>, the shape of an ordinary validation
  failure.
\<close>

theorem schema_error_returned_counterexample:
  "jsonschema_validate [] [(''required'', JStr ''id'')]
     = Inl (SchemaError (repr_str ''id'' @ '' is not of type '' @ repr_str ''array''))
   \<and> validate_output jsonschema_validate [] [(''required'', JStr ''id'')]
     = Inr (False, [''Schema error: '' @ repr_str ''id'' @ '' is not of type '' @ repr_str ''array''])"
  by (simp add: validate_output_def jsonschema_validate_def)

text \<open>
  C3, amended. When the library call raises \<^verbatim>\<open>SchemaError\<close>, \<open>validate_output\<close> catches
  it and returns the failing verdict whose only entry is \<^verbatim>\<open>Schema error: \<close> followed by
  the message. A caller tells it from a candidate failing a good schema by the text of
  that entry only: no result for a \<^verbatim>\<open>ValidationError\<close> is equal to it.
\<close>

theorem schema_error_reported_as_entry:
  assumes "validate candidate schema = Inl (SchemaError m)"
  shows "validate_output validate candidate schema = Inr (False, [''Schema error: '' @ m])
    \<and> (\<forall>validate' candidate' schema' ve.
          validate' candidate' schema' = Inl (ValidationError ve)
          \<longrightarrow> validate_output validate' candidate' schema'
                \<noteq> validate_output validate candidate schema)"
  using assms by (simp add: validate_output_cases validation_error_msg_def)

text \<open>
  C3, amended, at the malformed schema \<^verbatim>\<open>{"required": 3}\<close>.
\<close>

theorem schema_error_reported_as_entry_witness:
  "validate_output jsonschema_validate [] [(''required'', JInt 3)]
     = Inr (False, [''Schema error: 3 is not of type '' @ repr_str ''array''])"
proof -
  have h: "jsonschema_validate [] [(''required'', JInt 3)]
      = Inl (SchemaError (''3 is not of type '' @ repr_str ''array''))"
    by (simp add: jsonschema_validate_def str_int_def str_nat.simps digit_char_def)
  from schema_error_reported_as_entry
    [of jsonschema_validate "[]" "[(''required'', JInt 3)]" "''3 is not of type '' @ repr_str ''array''"] h
  show ?thesis by simp
qed

text \<open>
  C2 as stated fails: the candidate \<^verbatim>\<open>{"id": "wf-2"}\<close> misses the two required
  properties \<^verbatim>\<open>type\<close> and \<^verbatim>\<open>action\<close>, and the returned list has one entry, for
  \<^verbatim>\<open>type\<close>.
\<close>

theorem validate_output_all_errors_counterexample:
  "validate_output jsonschema_validate [(''id'', JStr ''wf-2'')]
       [(''required'', JArr [JStr ''id'', JStr ''type'', JStr ''action''])]
     = Inr (False, [''Validation error at path '' @ [CHR 0x27, CHR 0x27] @ '': ''
                     @ [CHR 0x27] @ ''type'' @ [CHR 0x27] @ '' is a required property''])
   \<and> filter (\<lambda>n. n \<notin> set (map fst [(''id'', JStr ''wf-2'')])) [''id'', ''type'', ''action'']
     = [''type'', ''action'']"
  by (simp add: validate_output_def jsonschema_validate_def required_errors_def
      validation_error_msg_def repr_str_def repr_char_def Let_def)

text \<open>
  C2, amended. \<open>validate_output\<close> does not collect all the validation errors: it reports
  the one \<^verbatim>\<open>ValidationError\<close> that the library call raises, by its entry first and then
  one entry per sub-error of its context, in order. Nothing else of the candidate's
  errors reaches the list.
\<close>

theorem validate_output_single_error:
  "validate candidate schema = Inl (ValidationError e)
     \<longrightarrow> validate_output validate candidate schema
           = Inr (False, validation_error_msg e # map sub_error_msg (e_context e))"
  by (simp add: validate_output_cases)

text \<open>
  C2, amended, at an error with a path and two sub-errors, and at the error raised for a
  candidate missing \<^verbatim>\<open>id\<close> and \<^verbatim>\<open>action\<close>.
\<close>

theorem validate_output_single_error_witness:
  "validate_output
       (\<lambda>c s. Inl (ValidationError (ValidationErr [Key ''action'', Idx 12] ''bad''
                 [ValidationErr [] ''first'' [], ValidationErr [] ''second'' []])))
       [] []
     = Inr (False, [''Validation error at path '' @ [CHR 0x27] @ ''action.12'' @ [CHR 0x27]
                      @ '': bad'',
                    ''  - Sub-error: first'', ''  - Sub-error: second''])
   \<and> validate_output jsonschema_validate [(''type'', JStr ''x'')]
       [(''required'', JArr [JStr ''id'', JStr ''type'', JStr ''action''])]
     = Inr (False, [''Validation error at path '' @ [CHR 0x27, CHR 0x27] @ '': ''
                     @ [CHR 0x27] @ ''id'' @ [CHR 0x27] @ '' is a required property''])"
proof -
  let ?e = "ValidationErr [Key ''action'', Idx 12] ''bad''
                 [ValidationErr [] ''first'' [], ValidationErr [] ''second'' []]"
  let ?v = "\<lambda>(c::pydict) (s::pydict). (Inl (ValidationError ?e) :: exn + unit)"
  have a: "validate_output ?v [] []
      = Inr (False, validation_error_msg ?e # map sub_error_msg (e_context ?e))"
    using validate_output_single_error [of ?v "[]" "[]" ?e] by simp
  let ?c = "[(''type'', JStr ''x'')]"
  let ?s = "[(''required'', JArr [JStr ''id'', JStr ''type'', JStr ''action''])]"
  let ?r = "ValidationErr [] (repr_str ''id'' @ '' is a required property'') []"
  have raised: "jsonschema_validate ?c ?s = Inl (ValidationError ?r)"
    by (simp add: jsonschema_validate_def required_errors_def)
  have b: "validate_output jsonschema_validate ?c ?s
      = Inr (False, validation_error_msg ?r # map sub_error_msg (e_context ?r))"
    using validate_output_single_error [of jsonschema_validate ?c ?s ?r] raised by simp
  from a b show ?thesis
    by (simp add: validation_error_msg_def sub_error_msg_def repr_str_def repr_char_def Let_def
        str_nat.simps digit_char_def)
qed

section \<open>Properties of retriever.py\<close>

lemma stable_argsort_ok: "argsort_ok stable_argsort"
  by (simp add: argsort_ok_def stable_argsort_def)

lemma argsort_length: "argsort_ok argsort \<Longrightarrow> length (argsort xs) = length xs"
  by (metis argsort_ok_def length_upt minus_nat.diff_0 size_mset)

lemma argsort_set: "argsort_ok argsort \<Longrightarrow> set (argsort xs) = {0..<length xs}"
  by (metis argsort_ok_def set_mset_mset set_upt)

lemma round_half_even_mono: "x \<le> y \<Longrightarrow> round_half_even x \<le> round_half_even y"
proof -
  assume xy: "x \<le> y"
  have fl: "\<lfloor>x\<rfloor> \<le> \<lfloor>y\<rfloor>" using xy by (rule floor_mono)
  have lo: "\<And>z. \<lfloor>z\<rfloor> \<le> round_half_even z" by (simp add: round_half_even_def Let_def)
  have hi: "\<And>z. round_half_even z \<le> \<lfloor>z\<rfloor> + 1" by (simp add: round_half_even_def Let_def)
  show ?thesis
  proof (cases "\<lfloor>x\<rfloor> < \<lfloor>y\<rfloor>")
    case True
    then have "round_half_even x \<le> \<lfloor>y\<rfloor>" using hi [of x] by linarith
    then show ?thesis using lo [of y] by linarith
  next
    case False
    then have eq: "\<lfloor>x\<rfloor> = \<lfloor>y\<rfloor>" using fl by linarith
    then show ?thesis using xy by (auto simp: round_half_even_def Let_def)
  qed
qed

lemma round4_mono: "x \<le> y \<Longrightarrow> round4 x \<le> round4 y"
  by (simp add: round4_def round_half_even_mono divide_right_mono)

lemma round_half_even_of_int: "round_half_even (of_int n) = n"
  by (simp add: round_half_even_def)


lemma round4_zero: "round4 0 = 0"
  using round_half_even_of_int [of 0] by (simp add: round4_def)

lemma similarity_scores_ok:
  assumes "index_ok query vectorizer m examples"
  shows "similarity_scores m (vectorizer query) = Inr (map (\<lambda>row. dot row (vectorizer query)) m)"
  using assms by (simp add: similarity_scores_def index_ok_def)

lemma top_indices_bound:
  assumes "argsort_ok argsort"
  shows "set (top_indices argsort scores k) \<subseteq> {0..<length scores}"
proof -
  have "set (take k (rev (argsort scores))) \<subseteq> set (rev (argsort scores))" by (rule set_take_subset)
  then show ?thesis using argsort_set [OF assms, of scores] by (simp add: top_indices_def)
qed

lemma get_top_k_eq:
  assumes a: "argsort_ok argsort" and ix: "index_ok query vectorizer m examples" and k: "1 \<le> k"
  shows "get_top_k argsort query vectorizer m examples k
     = Inr (map (\<lambda>idx. (examples ! idx, round4 (map (\<lambda>row. dot row (vectorizer query)) m ! idx)))
         (top_indices argsort (map (\<lambda>row. dot row (vectorizer query)) m)
            (min (nat k) (length examples))))"
proof -
  let ?scores = "map (\<lambda>row. dot row (vectorizer query)) m"
  let ?k' = "if k > int (length examples) then int (length examples) else k"
  have len: "length ?scores = length examples" using ix by (simp add: index_ok_def)
  have nk: "nat ?k' = min (nat k) (length examples)" using k by auto
  have "set (top_indices argsort ?scores (nat ?k')) \<subseteq> {0..<length ?scores}"
    by (rule top_indices_bound [OF a])
  then have all: "list_all (\<lambda>idx. idx < length examples \<and> idx < length ?scores)
      (top_indices argsort ?scores (nat ?k'))"
    using len by (auto simp: list_all_iff)
  have "get_top_k argsort query vectorizer m examples k
     = Inr (map (\<lambda>idx. (examples ! idx, round4 (?scores ! idx)))
         (top_indices argsort ?scores (nat ?k')))"
    using k all unfolding get_top_k_def similarity_scores_ok [OF ix] Let_def
    by simp
  then show ?thesis unfolding nk .
qed

lemma top_indices_length:
  assumes "argsort_ok argsort"
  shows "length (top_indices argsort scores k) = min k (length scores)"
  using argsort_length [OF assms, of scores] by (simp add: top_indices_def)

lemma top_indices_sorted:
  assumes "argsort_ok argsort"
  shows "sorted_wrt (\<lambda>i j. scores ! j \<le> scores ! i) (top_indices argsort scores k)"
proof -
  have "sorted (map (\<lambda>i. scores ! i) (argsort scores))"
    using assms by (simp add: argsort_ok_def)
  then have "sorted_wrt (\<lambda>i j. scores ! i \<le> scores ! j) (argsort scores)"
    by (simp add: sorted_wrt_map)
  then have "sorted_wrt (\<lambda>i j. scores ! j \<le> scores ! i) (rev (argsort scores))"
    by (simp add: sorted_wrt_rev)
  then show ?thesis unfolding top_indices_def by (rule sorted_wrt_take)
qed


text \<open>
  C7. With \<open>k < 1\<close> (so for \<open>k = 0\<close> and \<open>k = -1\<close>) \<open>get_top_k\<close> raises the
  \<^verbatim>\<open>ValueError\<close> \<^verbatim>\<open>k must be at least 1\<close>, which is how the code signals an invalid \<open>k\<close>,
  for every query, index, corpus and sort: the test comes first, before the query is
  encoded or any score is computed, and no result list is returned.
\<close>

theorem get_top_k_rejects_small_k:
  "k < 1 \<Longrightarrow>
     get_top_k argsort query vectorizer m examples k = Inl (ValueError ''k must be at least 1'')"
  by (simp add: get_top_k_def)

text \<open>
  C7 at \<open>k = 0\<close> and \<open>k = -1\<close>, with an index on which ranking itself would fail.
\<close>

theorem get_top_k_rejects_small_k_witness:
  "get_top_k stable_argsort ''notify'' (\<lambda>q. []) [[1]] [] 0
     = Inl (ValueError ''k must be at least 1'')
   \<and> get_top_k stable_argsort ''notify'' (\<lambda>q. []) [[1]] [] (- 1)
     = Inl (ValueError ''k must be at least 1'')"
  using get_top_k_rejects_small_k [of 0 stable_argsort "''notify''" "\<lambda>q. []" "[[1]]" "[]"]
    get_top_k_rejects_small_k [of "- 1" stable_argsort "''notify''" "\<lambda>q. []" "[[1]]" "[]"]
  by simp

text \<open>
  C8. On the empty list of examples \<open>build_index\<close> raises the \<^verbatim>\<open>ValueError\<close>
  \<^verbatim>\<open>Examples list cannot be empty\<close>, which is how the code signals an empty corpus, before
  the vectorizer is called; it never returns an index for zero documents.
\<close>

theorem build_index_rejects_empty:
  "build_index fit_transform [] = Inl (ValueError ''Examples list cannot be empty'')
   \<and> (\<forall>r. build_index fit_transform [] \<noteq> Inr r)"
  by (simp add: build_index_def)

text \<open>
  C8 with the TF-IDF vectorizer.
\<close>

theorem build_index_rejects_empty_witness:
  "build_index tfidf_fit_transform [] = Inl (ValueError ''Examples list cannot be empty'')"
  using build_index_rejects_empty [of tfidf_fit_transform] by simp

text \<open>
  C6. For an index of the corpus and \<open>k \<ge> 1\<close>, \<open>get_top_k\<close> does not fail and returns
  \<open>min k n\<close> results for a corpus of \<open>n\<close> examples. When \<open>k\<close> is at least \<open>n\<close> (so when
  \<open>k > n\<close>) the results are the examples at a permutation of all the positions of the corpus:
  every example exactly once.
\<close>

theorem get_top_k_clamps:
  assumes "argsort_ok argsort" and "index_ok query vectorizer m examples" and "1 \<le> k"
  shows "\<exists>res. get_top_k argsort query vectorizer m examples k = Inr res
           \<and> length res = min (nat k) (length examples)
           \<and> (int (length examples) \<le> k \<longrightarrow>
                (\<exists>top. map fst res = map (\<lambda>i. examples ! i) top
                        \<and> mset top = mset [0..<length examples])
                \<and> mset (map fst res) = mset examples)"
proof -
  let ?scores = "map (\<lambda>row. dot row (vectorizer query)) m"
  let ?top = "top_indices argsort ?scores (min (nat k) (length examples))"
  let ?res = "map (\<lambda>idx. (examples ! idx, round4 (?scores ! idx))) ?top"
  have len: "length ?scores = length examples" using assms(2) by (simp add: index_ok_def)
  have r: "get_top_k argsort query vectorizer m examples k = Inr ?res"
    by (rule get_top_k_eq [OF assms])
  have l: "length ?res = min (nat k) (length examples)"
    using top_indices_length [OF assms(1), of ?scores] len by simp
  have f: "map fst ?res = map (\<lambda>i. examples ! i) ?top" by (simp add: comp_def)
  have all: "int (length examples) \<le> k \<longrightarrow>
      mset ?top = mset [0..<length examples] \<and> mset (map fst ?res) = mset examples"
  proof
    assume big: "int (length examples) \<le> k"
    then have "min (nat k) (length examples) = length examples" by linarith
    then have "?top = rev (argsort ?scores)"
      using argsort_length [OF assms(1), of ?scores] len by (simp add: top_indices_def)
    then have m: "mset ?top = mset [0..<length examples]"
      using assms(1) len by (simp add: argsort_ok_def)
    have "mset (map (\<lambda>i. examples ! i) ?top) = image_mset (\<lambda>i. examples ! i) (mset ?top)"
      by simp
    also have "\<dots> = mset (map (\<lambda>i. examples ! i) [0..<length examples])"
      unfolding m by simp
    also have "\<dots> = mset examples" by (simp add: map_nth)
    finally have e: "mset (map (\<lambda>i. examples ! i) ?top) = mset examples" .
    have "mset (map fst ?res) = mset examples" unfolding f by (rule e)
    with m show "mset ?top = mset [0..<length examples] \<and> mset (map fst ?res) = mset examples"
      by blast
  qed
  show ?thesis using r l f all by blast
qed

text \<open>
  C1, amended. For an index of the corpus and \<open>k \<ge> 1\<close>, the scores of the returned list
  are non-increasing, whatever ascending sort \<^verbatim>\<open>np.argsort\<close> runs. The order of equal
  scores is not fixed by \<open>get_top_k\<close>, which does no tie-breaking of its own: the results
  are the examples at the first \<open>k\<close> indices of the reversed result of \<^verbatim>\<open>np.argsort\<close>, so
  equal scores come in the reverse of the order in which the sort returns them, and
  corpus order is not guaranteed. The result is a function of the inputs and the sort.
\<close>

theorem get_top_k_sorted_by_score:
  assumes "argsort_ok argsort" and "index_ok query vectorizer m examples" and "1 \<le> k"
  shows "\<exists>scores res.
           similarity_scores m (vectorizer query) = Inr scores
         \<and> get_top_k argsort query vectorizer m examples k = Inr res
         \<and> sorted_wrt (\<lambda>a b. snd b \<le> snd a) res
         \<and> res = map (\<lambda>i. (examples ! i, round4 (scores ! i)))
                   (take (nat k) (rev (argsort scores)))"
proof -
  let ?scores = "map (\<lambda>row. dot row (vectorizer query)) m"
  let ?top = "top_indices argsort ?scores (min (nat k) (length examples))"
  let ?res = "map (\<lambda>i. (examples ! i, round4 (?scores ! i))) ?top"
  have len: "length ?scores = length examples"
    using assms(2) by (simp add: index_ok_def)
  have sc: "similarity_scores m (vectorizer query) = Inr ?scores"
    by (rule similarity_scores_ok [OF assms(2)])
  have r: "get_top_k argsort query vectorizer m examples k = Inr ?res"
    by (rule get_top_k_eq [OF assms])
  have "sorted_wrt (\<lambda>i j. ?scores ! j \<le> ?scores ! i) ?top"
    by (rule top_indices_sorted [OF assms(1)])
  then have "sorted_wrt (\<lambda>i j. round4 (?scores ! j) \<le> round4 (?scores ! i)) ?top"
    by (rule sorted_wrt_mono_rel [rotated]) (simp add: round4_mono)
  then have so: "sorted_wrt (\<lambda>a b. snd b \<le> snd a) ?res"
    by (simp add: sorted_wrt_map)
  have "length (rev (argsort ?scores)) = length examples"
    using argsort_length [OF assms(1), of ?scores] len by simp
  then have "?top = take (nat k) (rev (argsort ?scores))"
    unfolding top_indices_def by (simp add: min_def)
  then have eq: "?res = map (\<lambda>i. (examples ! i, round4 (?scores ! i)))
                   (take (nat k) (rev (argsort ?scores)))"
    by simp
  show ?thesis
  proof (intro exI conjI)
    show "similarity_scores m (vectorizer query) = Inr ?scores" by (rule sc)
    show "get_top_k argsort query vectorizer m examples k = Inr ?res" by (rule r)
    show "sorted_wrt (\<lambda>a b. snd b \<le> snd a) ?res" by (rule so)
    show "?res = map (\<lambda>i. (examples ! i, round4 (?scores ! i)))
                   (take (nat k) (rev (argsort ?scores)))" by (rule eq)
  qed
qed

lemma l2_normalize_length [simp]: "length (l2_normalize v) = length v"
  by (simp add: l2_normalize_def Let_def)

lemma tfidf_transform_length [simp]:
  "length (tfidf_transform texts query) = length (fit_vocabulary texts)"
  by (simp add: tfidf_transform_def)


lemma to_text_alpha: "to_text [(''title'', JStr ''alpha'')] = ''alpha  {}''"
  by (simp add: to_text_def dict_get_def py_str_def Let_def)

lemma to_text_beta: "to_text [(''title'', JStr ''beta'')] = ''beta  {}''"
  by (simp add: to_text_def dict_get_def py_str_def Let_def)

lemma tokenize_alpha: "tokenize ''alpha  {}'' = [''alpha'']"
  by (simp add: tokenize_def is_word_char_def lower_char_def Let_def)

lemma tokenize_beta: "tokenize ''beta  {}'' = [''beta'']"
  by (simp add: tokenize_def is_word_char_def lower_char_def Let_def)

lemma tokenize_gamma: "tokenize ''gamma'' = [''gamma'']"
  by (simp add: tokenize_def is_word_char_def lower_char_def Let_def)

lemma vocab_ab: "fit_vocabulary [''alpha  {}'', ''beta  {}''] = [''alpha'', ''beta'']"
  by (simp add: fit_vocabulary_def tokenize_alpha tokenize_beta)

lemma dot_zero_right: "dot u (map (\<lambda>x. 0) v) = 0"
proof (induction u arbitrary: v)
  case Nil
  then show ?case by (simp add: dot_def)
next
  case (Cons a u)
  then show ?case by (cases v) (simp_all add: dot_def)
qed

lemma transform_gamma: "tfidf_transform [''alpha  {}'', ''beta  {}''] ''gamma'' = [0, 0]"
  by (simp add: tfidf_transform_def vocab_ab tokenize_gamma l2_normalize_def dot_def)

text \<open>
  C1 as stated fails: corpus order of equal scores is not what the code guarantees. For
  the corpus of the two examples \<^verbatim>\<open>alpha\<close> and \<^verbatim>\<open>beta\<close> and the query \<^verbatim>\<open>gamma\<close>, both
  examples score 0, and it is not so that every ascending sort makes \<open>get_top_k\<close> return
  \<^verbatim>\<open>alpha\<close> before \<^verbatim>\<open>beta\<close>: the insertion sort makes it return \<^verbatim>\<open>beta\<close> first.
\<close>

theorem get_top_k_tie_order_counterexample:
  "build_index tfidf_fit_transform [[(''title'', JStr ''alpha'')], [(''title'', JStr ''beta'')]]
     = Inr (tfidf_transform [''alpha  {}'', ''beta  {}''],
            map (tfidf_transform [''alpha  {}'', ''beta  {}'']) [''alpha  {}'', ''beta  {}''],
            [''alpha  {}'', ''beta  {}''])
   \<and> similarity_scores
         (map (tfidf_transform [''alpha  {}'', ''beta  {}'']) [''alpha  {}'', ''beta  {}''])
         (tfidf_transform [''alpha  {}'', ''beta  {}''] ''gamma'')
     = Inr [0, 0]
   \<and> \<not> (\<forall>argsort. argsort_ok argsort \<longrightarrow>
          get_top_k argsort ''gamma'' (tfidf_transform [''alpha  {}'', ''beta  {}''])
            (map (tfidf_transform [''alpha  {}'', ''beta  {}'']) [''alpha  {}'', ''beta  {}''])
            [[(''title'', JStr ''alpha'')], [(''title'', JStr ''beta'')]] 2
          = Inr [([(''title'', JStr ''alpha'')], 0), ([(''title'', JStr ''beta'')], 0)])"
proof (intro conjI)
  show "build_index tfidf_fit_transform [[(''title'', JStr ''alpha'')], [(''title'', JStr ''beta'')]]
     = Inr (tfidf_transform [''alpha  {}'', ''beta  {}''],
            map (tfidf_transform [''alpha  {}'', ''beta  {}'']) [''alpha  {}'', ''beta  {}''],
            [''alpha  {}'', ''beta  {}''])"
    by (simp add: build_index_def tfidf_fit_transform_def to_text_alpha to_text_beta vocab_ab
        Let_def)
next
  let ?texts = "[''alpha  {}'', ''beta  {}'']"
  have z: "dot (tfidf_transform ?texts ''alpha  {}'') [0, 0] = 0"
    "dot (tfidf_transform ?texts ''beta  {}'') [0, 0] = 0"
    using dot_zero_right [of _ "[0, 0 :: real]"] by simp_all
  show s: "similarity_scores (map (tfidf_transform ?texts) ?texts) (tfidf_transform ?texts ''gamma'')
      = Inr [0, 0]"
    by (simp add: similarity_scores_def transform_gamma vocab_ab z)
  have t: "top_indices stable_argsort [0, 0] 2 = [1, 0]"
    by (simp add: top_indices_def stable_argsort_def upt_rec)
  have g: "get_top_k stable_argsort ''gamma'' (tfidf_transform ?texts)
       (map (tfidf_transform ?texts) ?texts)
       [[(''title'', JStr ''alpha'')], [(''title'', JStr ''beta'')]] 2
     = Inr [([(''title'', JStr ''beta'')], 0), ([(''title'', JStr ''alpha'')], 0)]"
    using s t by (simp add: get_top_k_def round4_zero Let_def)
  show "\<not> (\<forall>argsort. argsort_ok argsort \<longrightarrow>
          get_top_k argsort ''gamma'' (tfidf_transform ?texts)
            (map (tfidf_transform ?texts) ?texts)
            [[(''title'', JStr ''alpha'')], [(''title'', JStr ''beta'')]] 2
          = Inr [([(''title'', JStr ''alpha'')], 0), ([(''title'', JStr ''beta'')], 0)])"
  proof
    assume "\<forall>argsort. argsort_ok argsort \<longrightarrow>
          get_top_k argsort ''gamma'' (tfidf_transform ?texts)
            (map (tfidf_transform ?texts) ?texts)
            [[(''title'', JStr ''alpha'')], [(''title'', JStr ''beta'')]] 2
          = Inr [([(''title'', JStr ''alpha'')], 0), ([(''title'', JStr ''beta'')], 0)]"
    with stable_argsort_ok
    have "get_top_k stable_argsort ''gamma'' (tfidf_transform ?texts)
            (map (tfidf_transform ?texts) ?texts)
            [[(''title'', JStr ''alpha'')], [(''title'', JStr ''beta'')]] 2
          = Inr [([(''title'', JStr ''alpha'')], 0), ([(''title'', JStr ''beta'')], 0)]"
      by blast
    with g show False by simp
  qed
qed

lemma dot_Nil [simp]: "dot [] v = 0" "dot u [] = 0"
  by (simp_all add: dot_def)

lemma dot_Cons [simp]: "dot (a # u) (b # v) = a * b + dot u v"
  by (simp add: dot_def)
































lemma index_ok_alpha_beta:
  "index_ok query (tfidf_transform [''alpha  {}'', ''beta  {}''])
     (map (tfidf_transform [''alpha  {}'', ''beta  {}'']) [''alpha  {}'', ''beta  {}''])
     [[(''title'', JStr ''alpha'')], [(''title'', JStr ''beta'')]]"
  by (simp add: index_ok_def)

text \<open>
  C1, amended, at a corpus of two examples and the query \<^verbatim>\<open>beta\<close>.
\<close>

theorem get_top_k_sorted_by_score_witness:
  "argsort_ok stable_argsort
   \<and> index_ok ''beta'' (tfidf_transform [''alpha  {}'', ''beta  {}''])
     (map (tfidf_transform [''alpha  {}'', ''beta  {}'']) [''alpha  {}'', ''beta  {}''])
     [[(''title'', JStr ''alpha'')], [(''title'', JStr ''beta'')]]
   \<and> (\<exists>res. get_top_k stable_argsort ''beta'' (tfidf_transform [''alpha  {}'', ''beta  {}''])
         (map (tfidf_transform [''alpha  {}'', ''beta  {}'']) [''alpha  {}'', ''beta  {}''])
         [[(''title'', JStr ''alpha'')], [(''title'', JStr ''beta'')]] 2 = Inr res
       \<and> sorted_wrt (\<lambda>a b. snd b \<le> snd a) res)"
proof -
  have k: "(1::int) \<le> 2" by simp
  from get_top_k_sorted_by_score [OF stable_argsort_ok index_ok_alpha_beta [of "''beta''"] k]
    stable_argsort_ok index_ok_alpha_beta [of "''beta''"]
  show ?thesis by blast
qed

text \<open>
  C6 at a corpus of two examples and \<open>k = 5\<close>.
\<close>

theorem get_top_k_clamps_witness:
  "argsort_ok stable_argsort
   \<and> index_ok ''gamma'' (tfidf_transform [''alpha  {}'', ''beta  {}''])
     (map (tfidf_transform [''alpha  {}'', ''beta  {}'']) [''alpha  {}'', ''beta  {}''])
     [[(''title'', JStr ''alpha'')], [(''title'', JStr ''beta'')]]
   \<and> (\<exists>res. get_top_k stable_argsort ''gamma'' (tfidf_transform [''alpha  {}'', ''beta  {}''])
         (map (tfidf_transform [''alpha  {}'', ''beta  {}'']) [''alpha  {}'', ''beta  {}''])
         [[(''title'', JStr ''alpha'')], [(''title'', JStr ''beta'')]] 5 = Inr res
       \<and> length res = 2
       \<and> mset (map fst res)
           = mset [[(''title'', JStr ''alpha'')], [(''title'', JStr ''beta'')]])"
proof -
  have k: "(1::int) \<le> 5" by simp
  from get_top_k_clamps [OF stable_argsort_ok index_ok_alpha_beta [of "''gamma''"] k]
  obtain res where
    "get_top_k stable_argsort ''gamma'' (tfidf_transform [''alpha  {}'', ''beta  {}''])
         (map (tfidf_transform [''alpha  {}'', ''beta  {}'']) [''alpha  {}'', ''beta  {}''])
         [[(''title'', JStr ''alpha'')], [(''title'', JStr ''beta'')]] 5 = Inr res"
    "length res = 2"
    "mset (map fst res) = mset [[(''title'', JStr ''alpha'')], [(''title'', JStr ''beta'')]]"
    by auto
  with stable_argsort_ok index_ok_alpha_beta [of "''gamma''"] show ?thesis by blast
qed


end
